theory Spec2Isabelle
  imports Complex_Main
begin

section \<open>Python primitives used by the pipeline\<close>

text \<open>
  A Python \<open>str\<close> is a sequence of code points. It is modelled as a \<open>string\<close> in which
  every \<open>char\<close> stands for one code point below 256, so \<open>length\<close> is Python's \<open>len\<close>.
  The exceptions the modelled code can raise are values of \<open>py_error\<close>.
\<close>

datatype py_error = IndexError | ValueError

text \<open>\<open>str.isspace\<close> on one code point below 256: TAB..CR, FS..US, space, NEL, NBSP.\<close>

definition is_space :: "char \<Rightarrow> bool" where
  "is_space c =
     (let n = (of_char c :: nat)
      in (9 \<le> n \<and> n \<le> 13) \<or> (28 \<le> n \<and> n \<le> 32) \<or> n = 133 \<or> n = 160)"

text \<open>\<open>s.strip()\<close>: leading and trailing whitespace removed.\<close>

definition strip :: "string \<Rightarrow> string" where
  "strip s = rev (dropWhile is_space (rev (dropWhile is_space s)))"

text \<open>
  \<open>s.split()\<close>: the maximal runs of non-whitespace characters, in order. The first
  argument of \<open>split_acc\<close> is the run being read.
\<close>

fun split_acc :: "string \<Rightarrow> string \<Rightarrow> string list" where
  "split_acc cur [] = (if cur = [] then [] else [cur])"
| "split_acc cur (c # cs) =
     (if is_space c
      then (if cur = [] then split_acc [] cs else cur # split_acc [] cs)
      else split_acc (cur @ [c]) cs)"

definition split_ws :: "string \<Rightarrow> string list" where
  "split_ws s = split_acc [] s"

text \<open>\<open>len(s.split())\<close>, the word count the chunker works with.\<close>

definition word_count :: "string \<Rightarrow> nat" where
  "word_count s = length (split_ws s)"

text \<open>\<open>sep.join(xs)\<close>.\<close>

fun py_join :: "string \<Rightarrow> string list \<Rightarrow> string" where
  "py_join sep [] = []"
| "py_join sep [x] = x"
| "py_join sep (x # y # ys) = x @ sep @ py_join sep (y # ys)"

text \<open>
  \<open>xs[a:]\<close> for an integer \<open>a\<close>: a negative \<open>a\<close> counts from the end, and the start is
  clipped to the list. In particular \<open>xs[-0:]\<close> is \<open>xs[0:]\<close>, the whole list.
\<close>

definition py_slice_from :: "int \<Rightarrow> 'a list \<Rightarrow> 'a list" where
  "py_slice_from a xs =
     (let n = int (length xs);
          start = (if a < 0 then max (n + a) 0 else min a n)
      in drop (nat start) xs)"

text \<open>
  \<open>xs[i]\<close> for an integer \<open>i\<close>: a negative \<open>i\<close> counts from the end, and an index outside
  the list raises \<open>IndexError\<close>.
\<close>

definition py_index :: "'a list \<Rightarrow> int \<Rightarrow> py_error + 'a" where
  "py_index xs i =
     (if 0 \<le> i \<and> i < int (length xs) then Inr (xs ! nat i)
      else if i < 0 \<and> - int (length xs) \<le> i then Inr (xs ! nat (int (length xs) + i))
      else Inl IndexError)"

section \<open>VectorStore.chunk_text\<close>

text \<open>
  The loop state of \<open>chunk_text\<close> is \<open>(chunks, current_chunk_sentences,
  current_word_count)\<close>. \<open>chunk_step\<close> is one iteration of the \<open>for\<close> loop over the
  sentences: when the next sentence would take the running count over \<open>chunk_size\<close>
  and the current chunk is not empty, the current chunk is emitted and reset to
  \<open>current_chunk_sentences[-overlap_sentences:]\<close>, its word count recomputed from the
  joined text; then the sentence is appended.
\<close>

type_synonym chunk_state = "string list \<times> string list \<times> nat"

definition chunk_step :: "int \<Rightarrow> int \<Rightarrow> string \<Rightarrow> chunk_state \<Rightarrow> chunk_state" where
  "chunk_step chunk_size overlap_sentences sentence st =
     (case st of (chunks, cur, cnt) \<Rightarrow>
        let w = word_count sentence
        in if int (cnt + w) > chunk_size \<and> cur \<noteq> []
           then (let cur' = py_slice_from (- overlap_sentences) cur
                 in (chunks @ [py_join '' '' cur], cur' @ [sentence],
                     word_count (py_join '' '' cur') + w))
           else (chunks, cur @ [sentence], cnt + w))"

fun chunk_loop :: "int \<Rightarrow> int \<Rightarrow> string list \<Rightarrow> chunk_state \<Rightarrow> chunk_state" where
  "chunk_loop chunk_size overlap_sentences [] st = st"
| "chunk_loop chunk_size overlap_sentences (s # ss) st =
     chunk_loop chunk_size overlap_sentences ss
       (chunk_step chunk_size overlap_sentences s st)"

text \<open>The loop and the final emission of the remaining chunk, on the sentence list.\<close>

definition chunk_sentences :: "string list \<Rightarrow> int \<Rightarrow> int \<Rightarrow> string list" where
  "chunk_sentences sentences chunk_size overlap_sentences =
     (case chunk_loop chunk_size overlap_sentences sentences ([], [], 0) of
        (chunks, cur, cnt) \<Rightarrow>
          if cur \<noteq> [] then chunks @ [py_join '' '' cur] else chunks)"

text \<open>
  \<open>chunk_text\<close> itself. The sentence splitter (\<open>nltk.sent_tokenize\<close>) is an external
  capability and is taken as the parameter \<open>sent_tokenize\<close>.
\<close>

definition chunk_text ::
  "(string \<Rightarrow> string list) \<Rightarrow> string \<Rightarrow> int \<Rightarrow> int \<Rightarrow> string list" where
  "chunk_text sent_tokenize text chunk_size overlap_sentences =
     (if text = [] then []
      else chunk_sentences (sent_tokenize text) chunk_size overlap_sentences)"

text \<open>
  A small sentence splitter for the worked examples: it cuts after every full stop,
  trims each piece and drops the empty ones. It stands in for the injected splitter
  only where a concrete one is needed.
\<close>

fun cut_after_stop :: "string \<Rightarrow> string \<Rightarrow> string list" where
  "cut_after_stop cur [] = [cur]"
| "cut_after_stop cur (c # cs) =
     (if c = CHR ''.'' then (cur @ [c]) # cut_after_stop [] cs
      else cut_after_stop (cur @ [c]) cs)"

definition stop_tokenize :: "string \<Rightarrow> string list" where
  "stop_tokenize t = filter (\<lambda>s. s \<noteq> []) (map strip (cut_after_stop [] t))"

section \<open>Documents and VectorStore._extract_texts\<close>

text \<open>
  A document is what \<open>json.load\<close> returns. An object is a Python \<open>dict\<close>: its items
  are kept in document order and its keys are distinct, so it is an association list.
\<close>

datatype json =
    JNull
  | JBool bool
  | JNum real
  | JStr string
  | JArr "json list"
  | JObj "(string \<times> json) list"

text \<open>Python truth value of a document value, as the operator \<open>or\<close> tests it.\<close>

fun py_truthy :: "json \<Rightarrow> bool" where
  "py_truthy JNull = False"
| "py_truthy (JBool b) = b"
| "py_truthy (JNum x) = (x \<noteq> 0)"
| "py_truthy (JStr s) = (s \<noteq> [])"
| "py_truthy (JArr xs) = (xs \<noteq> [])"
| "py_truthy (JObj kvs) = (kvs \<noteq> [])"

text \<open>
  \<open>_extract_texts\<close>. In a \<open>dict\<close>, a value that is a string is kept (stripped) when its
  stripped length is at least 40, and any other value is traversed. In a \<open>list\<close>, every
  item is traversed. Anything else, a string reached by traversal included, yields
  nothing. \<open>extract_items\<close> is the loop over \<open>obj.items()\<close> and \<open>extract_elems\<close> the loop
  over the list.
\<close>

fun extract_texts :: "json \<Rightarrow> string list"
  and extract_items :: "(string \<times> json) list \<Rightarrow> string list"
  and extract_elems :: "json list \<Rightarrow> string list" where
  "extract_texts (JObj kvs) = extract_items kvs"
| "extract_texts (JArr xs) = extract_elems xs"
| "extract_texts JNull = []"
| "extract_texts (JBool b) = []"
| "extract_texts (JNum x) = []"
| "extract_texts (JStr s) = []"
| "extract_items [] = []"
| "extract_items ((k, v) # kvs) =
     (case v of
        JStr s \<Rightarrow> (if length (strip s) \<ge> 40 then [strip s] else [])
      | _ \<Rightarrow> extract_texts v) @ extract_items kvs"
| "extract_elems [] = []"
| "extract_elems (x # xs) = extract_texts x @ extract_elems xs"

section \<open>VectorStore: process_data, create_index, save_index\<close>

text \<open>The metadata dictionary appended for every chunk.\<close>

record metadata_record =
  md_url :: json
  chunk_id :: nat
  total_chunks :: nat
  text_length :: nat
  md_text :: string

text \<open>
  A flat inner-product index: its dimension and its rows in insertion order; the row
  id is the position. The scalar type of the vectors is left open.
\<close>

record 'a faiss_index =
  ix_d :: nat
  ix_rows :: "'a list list"

definition ntotal :: "'a faiss_index \<Rightarrow> nat" where
  "ntotal ix = length (ix_rows ix)"

record 'a vector_store =
  vs_index :: "'a faiss_index option"
  vs_texts :: "string list"
  vs_metadata :: "metadata_record list"

definition new_vector_store :: "'a vector_store" where
  "new_vector_store = \<lparr>vs_index = None, vs_texts = [], vs_metadata = []\<rparr>"

text \<open>\<open>doc.get('url') or doc.get('source_url') or 'Unknown URL'\<close>.\<close>

definition doc_url :: "(string \<times> json) list \<Rightarrow> json" where
  "doc_url doc =
     (case map_of doc ''url'' of
        Some u \<Rightarrow> if py_truthy u then u
          else (case map_of doc ''source_url'' of
                  Some s \<Rightarrow> if py_truthy s then s else JStr ''Unknown URL''
                | None \<Rightarrow> JStr ''Unknown URL'')
      | None \<Rightarrow>
          (case map_of doc ''source_url'' of
             Some s \<Rightarrow> if py_truthy s then s else JStr ''Unknown URL''
           | None \<Rightarrow> JStr ''Unknown URL''))"

text \<open>
  The body of the innermost loop of \<open>process_data\<close>, for the pair \<open>(i, chunk)\<close> of
  \<open>enumerate(chunks)\<close>: the chunk goes to \<open>texts\<close> and its dictionary to \<open>metadata\<close>.
\<close>

definition chunk_record :: "json \<Rightarrow> nat \<Rightarrow> nat \<times> string \<Rightarrow> metadata_record" where
  "chunk_record url n_chunks ic =
     (case ic of (i, chunk) \<Rightarrow>
        \<lparr>md_url = url, chunk_id = i, total_chunks = n_chunks,
         text_length = length chunk, md_text = chunk\<rparr>)"

definition append_chunk ::
  "json \<Rightarrow> nat \<Rightarrow> nat \<times> string \<Rightarrow> 'a vector_store \<Rightarrow> 'a vector_store" where
  "append_chunk url n_chunks ic vs =
     vs\<lparr>vs_texts := vs_texts vs @ [snd ic],
        vs_metadata := vs_metadata vs @ [chunk_record url n_chunks ic]\<rparr>"

text \<open>
  The loop over the chunks of one text. \<open>process_data\<close> calls \<open>chunk_text(raw_text,
  chunk_size)\<close>, so the overlap is the default, 2.
\<close>

definition process_text ::
  "(string \<Rightarrow> string list) \<Rightarrow> int \<Rightarrow> json \<Rightarrow> string \<Rightarrow> 'a vector_store \<Rightarrow> 'a vector_store" where
  "process_text sent_tokenize chunk_size url raw_text vs =
     (let chunks = chunk_text sent_tokenize raw_text chunk_size 2
      in fold (append_chunk url (length chunks)) (enumerate 0 chunks) vs)"

definition process_doc ::
  "(string \<Rightarrow> string list) \<Rightarrow> int \<Rightarrow> (string \<times> json) list \<Rightarrow> 'a vector_store \<Rightarrow> 'a vector_store" where
  "process_doc sent_tokenize chunk_size doc vs =
     fold (process_text sent_tokenize chunk_size (doc_url doc)) (extract_texts (JObj doc)) vs"

definition process_data ::
  "(string \<Rightarrow> string list) \<Rightarrow> (string \<times> json) list list \<Rightarrow> int \<Rightarrow> 'a vector_store \<Rightarrow> 'a vector_store" where
  "process_data sent_tokenize data chunk_size vs =
     fold (process_doc sent_tokenize chunk_size) data vs"

text \<open>
  \<open>create_index\<close>. The embedding model (\<open>self.model.encode\<close>) and \<open>faiss.normalize_L2\<close>
  are external and taken as parameters. With no texts nothing is done. Otherwise the
  embeddings form a matrix: \<open>shape[1]\<close> needs at least one row (\<open>IndexError\<close>) and rows
  of one length (\<open>ValueError\<close>); the new index holds the normalised rows in order.
\<close>

definition create_index ::
  "(string list \<Rightarrow> 'a list list) \<Rightarrow> ('a list \<Rightarrow> 'a list) \<Rightarrow> 'a vector_store \<Rightarrow>
   py_error + 'a vector_store" where
  "create_index encode normalize_L2 vs =
     (if vs_texts vs = [] then Inr vs
      else (case encode (vs_texts vs) of
              [] \<Rightarrow> Inl IndexError
            | r # rs \<Rightarrow>
                if list_ex (\<lambda>v. length v \<noteq> length r) rs then Inl ValueError
                else Inr (vs\<lparr>vs_index :=
                       Some \<lparr>ix_d = length r, ix_rows = map normalize_L2 (r # rs)\<rparr>\<rparr>)))"

text \<open>
  The persisted artifacts live in a file store, a map from paths to file contents.
  \<open>faiss.write_index\<close>/\<open>read_index\<close> and \<open>pickle.dump\<close>/\<open>load\<close> are external and taken
  as the fields of a \<open>codec\<close>; a reader gives \<open>None\<close> where the library raises.
\<close>

record ('a, 'b) codec =
  write_index :: "'a faiss_index \<Rightarrow> 'b"
  read_index :: "'b \<Rightarrow> 'a faiss_index option"
  pickle_dump :: "metadata_record list \<Rightarrow> 'b"
  pickle_load :: "'b \<Rightarrow> metadata_record list option"

text \<open>\<open>save_index\<close>: nothing without an index; otherwise the index file, then the metadata file.\<close>

definition save_index ::
  "('a, 'b) codec \<Rightarrow> string \<Rightarrow> string \<Rightarrow> 'a vector_store \<Rightarrow> (string \<rightharpoonup> 'b) \<Rightarrow> (string \<rightharpoonup> 'b)" where
  "save_index cd index_path metadata_path vs files =
     (case vs_index vs of
        None \<Rightarrow> files
      | Some ix \<Rightarrow>
          (files(index_path \<mapsto> write_index cd ix))
            (metadata_path \<mapsto> pickle_dump cd (vs_metadata vs)))"

section \<open>QueryEngine: load_index and search\<close>

record 'a query_engine =
  qe_index :: "'a faiss_index option"
  qe_metadata :: "metadata_record list"

definition new_query_engine :: "'a query_engine" where
  "new_query_engine = \<lparr>qe_index = None, qe_metadata = []\<rparr>"

text \<open>
  \<open>load_index\<close>: the index is read and assigned, then the metadata; any exception
  (a missing or unreadable file) is caught and the result is \<open>False\<close>, with whatever was
  assigned before it kept. The result is \<open>True\<close> otherwise. Nothing else is checked.
\<close>

definition load_index ::
  "('a, 'b) codec \<Rightarrow> string \<Rightarrow> string \<Rightarrow> (string \<rightharpoonup> 'b) \<Rightarrow> 'a query_engine \<Rightarrow>
   bool \<times> 'a query_engine" where
  "load_index cd index_path metadata_path files qe =
     (case Option.bind (files index_path) (read_index cd) of
        None \<Rightarrow> (False, qe)
      | Some ix \<Rightarrow>
          (let qe1 = qe\<lparr>qe_index := Some ix\<rparr>
           in case Option.bind (files metadata_path) (pickle_load cd) of
                None \<Rightarrow> (False, qe1)
              | Some md \<Rightarrow> (True, qe1\<lparr>qe_metadata := md\<rparr>)))"

text \<open>
  One entry of the list \<open>search\<close> returns. The display string \<open>text_chunk\<close>, formatted
  from the same metadata record, is left out.
\<close>

record search_result =
  rank :: nat
  score :: real
  res_metadata :: metadata_record
  res_text :: string

text \<open>
  The loop of \<open>search\<close> over \<open>enumerate(zip(scores[0], indices[0]))\<close>: \<open>i\<close> is the
  position in the index's answer, and a row is resolved only under the guard
  \<open>idx < len(self.metadata)\<close>. \<open>self.metadata[idx]\<close> is Python indexing.
\<close>

fun search_loop ::
  "metadata_record list \<Rightarrow> nat \<Rightarrow> (real \<times> int) list \<Rightarrow> search_result list \<Rightarrow>
   py_error + search_result list" where
  "search_loop md i [] results = Inr results"
| "search_loop md i ((sc, idx) # rest) results =
     (if idx < int (length md)
      then (case py_index md idx of
              Inl e \<Rightarrow> Inl e
            | Inr m \<Rightarrow>
                search_loop md (Suc i) rest
                  (results @ [\<lparr>rank = i + 1, score = sc, res_metadata = m,
                               res_text = md_text m\<rparr>]))
      else search_loop md (Suc i) rest results)"

definition search_rows ::
  "metadata_record list \<Rightarrow> (real \<times> int) list \<Rightarrow> py_error + search_result list" where
  "search_rows md found = search_loop md 0 found []"

text \<open>
  \<open>search\<close>. The query embedding, its normalisation and the index's own search
  (\<open>self.index.search(query_embedding, top_k)\<close>, giving the scores and row ids of one
  query) are external and taken as parameters; \<open>top_k\<close> is passed on as it is.
\<close>

definition search ::
  "(string \<Rightarrow> 'a list) \<Rightarrow> ('a list \<Rightarrow> 'a list) \<Rightarrow>
   ('a faiss_index \<Rightarrow> 'a list \<Rightarrow> int \<Rightarrow> (real \<times> int) list) \<Rightarrow>
   'a query_engine \<Rightarrow> string \<Rightarrow> int \<Rightarrow> py_error + search_result list" where
  "search encode normalize_L2 index_search qe query top_k =
     (case qe_index qe of
        None \<Rightarrow> Inr []
      | Some ix \<Rightarrow>
          search_rows (qe_metadata qe) (index_search ix (normalize_L2 (encode query)) top_k))"

section \<open>Worked-example values and auxiliary notions\<close>

text \<open>
  A codec under which a file holds the very value written to it. It stands in for the
  serialisation libraries where a concrete one is needed.
\<close>

definition plain_codec :: "('a, 'a faiss_index + metadata_record list) codec" where
  "plain_codec =
     \<lparr>write_index = Inl,
      read_index = (\<lambda>b. case b of Inl ix \<Rightarrow> Some ix | Inr md \<Rightarrow> None),
      pickle_dump = Inr,
      pickle_load = (\<lambda>b. case b of Inl ix \<Rightarrow> None | Inr md \<Rightarrow> Some md)\<rparr>"

text \<open>The record of chunk \<open>i\<close> of a five-chunk text.\<close>

definition sample_record :: "nat \<Rightarrow> metadata_record" where
  "sample_record i =
     \<lparr>md_url = JStr ''https://x'', chunk_id = i, total_chunks = 5,
      text_length = 5, md_text = ''chunk''\<rparr>"



text \<open>The records \<open>process_data\<close> appends for one text.\<close>

definition text_records :: "(string \<Rightarrow> string list) \<Rightarrow> int \<Rightarrow> json \<Rightarrow> string \<Rightarrow> metadata_record list" where
  "text_records sent_tokenize chunk_size url raw_text =
     (let chunks = chunk_text sent_tokenize raw_text chunk_size 2
      in map (chunk_record url (length chunks)) (enumerate 0 chunks))"

section \<open>Helper lemmas\<close>

lemma split_acc_sep:
  "split_acc cur (a @ CHR '' '' # b) = split_acc cur a @ split_acc [] b"
  by (induction a arbitrary: cur) (simp_all add: is_space_def)

lemma word_count_sep:
  "word_count (a @ '' '' @ b) = word_count a + word_count b"
  by (simp add: word_count_def split_ws_def split_acc_sep)

lemma word_count_join:
  "word_count (py_join '' '' xs) = sum_list (map word_count xs)"
proof (induction "'' ''" xs rule: py_join.induct)
  case 1
  show ?case by (simp add: word_count_def split_ws_def)
next
  case (2 x)
  show ?case by simp
next
  case (3 x y ys)
  then show ?case using word_count_sep[of x "py_join '' '' (y # ys)"] by simp
qed

lemma chunk_loop_within:
  "int (cnt + sum_list (map word_count ss)) \<le> chunk_size \<Longrightarrow>
   chunk_loop chunk_size ov ss (chunks, cur, cnt) =
     (chunks, cur @ ss, cnt + sum_list (map word_count ss))"
proof (induction ss arbitrary: cur cnt)
  case Nil
  show ?case by simp
next
  case (Cons s ss)
  have step: "chunk_step chunk_size ov s (chunks, cur, cnt) = (chunks, cur @ [s], cnt + word_count s)"
    using Cons.prems by (simp add: chunk_step_def)
  have "int ((cnt + word_count s) + sum_list (map word_count ss)) \<le> chunk_size"
    using Cons.prems by (simp add: add.assoc)
  from Cons.IH[OF this] show ?case
    by (simp add: step add.assoc)
qed

lemma chunk_sentences_within:
  assumes "sentences \<noteq> []"
    and "int (sum_list (map word_count sentences)) \<le> chunk_size"
  shows "chunk_sentences sentences chunk_size ov = [py_join '' '' sentences]"
  using assms chunk_loop_within[of 0 sentences chunk_size ov "[]" "[]"]
  by (simp add: chunk_sentences_def)

lemma chunk_sentences_Nil: "chunk_sentences [] chunk_size ov = []"
  by (simp add: chunk_sentences_def)

lemma py_slice_from_last:
  "0 < n \<Longrightarrow> py_slice_from (- n) xs = drop (length xs - nat n) xs"
  by (auto simp: py_slice_from_def Let_def max_def nat_diff_distrib'
      intro: arg_cong[where f = "\<lambda>k. drop k xs"])

text \<open>
  With a positive overlap, an emission resets the current chunk to the last
  \<open>overlap_sentences\<close> sentences of the emitted chunk (all of them if there are fewer)
  and recounts the words of exactly those sentences.
\<close>

lemma chunk_step_overlap:
  assumes "0 < overlap_sentences" and "int (cnt + word_count s) > chunk_size" and "cur \<noteq> []"
  shows "chunk_step chunk_size overlap_sentences s (chunks, cur, cnt) =
    (chunks @ [py_join '' '' cur],
     drop (length cur - nat overlap_sentences) cur @ [s],
     sum_list (map word_count (drop (length cur - nat overlap_sentences) cur)) + word_count s)"
  using assms by (simp add: chunk_step_def py_slice_from_last word_count_join Let_def)

section \<open>The chunker\<close>

text \<open>
  C8, as amended. A non-empty text with at least one sentence, whose sentences hold at
  most \<open>chunk_size\<close> words in total, gives exactly one chunk: its sentences joined with
  single spaces. The empty string, and any text the splitter finds no sentence in,
  gives no chunk at all.
\<close>

theorem chunk_text_within_budget:
  "(text \<noteq> [] \<and> sent_tokenize text \<noteq> [] \<and>
      int (sum_list (map word_count (sent_tokenize text))) \<le> chunk_size
      \<longrightarrow> chunk_text sent_tokenize text chunk_size ov = [py_join '' '' (sent_tokenize text)])
   \<and> (text = [] \<or> sent_tokenize text = []
      \<longrightarrow> chunk_text sent_tokenize text chunk_size ov = [])"
  by (auto simp: chunk_text_def chunk_sentences_within chunk_sentences_Nil)

theorem chunk_text_within_budget_witness:
  "chunk_text stop_tokenize ''One two. Three four.'' 500 2 = [''One two. Three four.'']
   \<and> chunk_text stop_tokenize '''' 500 2 = []
   \<and> chunk_text stop_tokenize ''   '' 500 2 = []"
proof -
  have a: "stop_tokenize ''One two. Three four.'' = [''One two.'', ''Three four.'']"
    by code_simp
  have b: "int (sum_list (map word_count (stop_tokenize ''One two. Three four.''))) \<le> 500"
    unfolding a by code_simp
  have c: "stop_tokenize ''   '' = []"
    by code_simp
  show ?thesis
    using chunk_text_within_budget[of "''One two. Three four.''" stop_tokenize 500 2]
      chunk_text_within_budget[of "''''" stop_tokenize 500 2]
      chunk_text_within_budget[of "''   ''" stop_tokenize 500 2] a b c
    by simp
qed

text \<open>
  C8 as stated fails on a text of blanks: it is not the empty string, its sentences
  (there are none) hold 0 words, and no chunk is returned where the claim promises one.
\<close>

theorem chunk_text_blank_counterexample:
  "''   '' \<noteq> [] \<and> int (sum_list (map word_count (stop_tokenize ''   ''))) \<le> 500
   \<and> chunk_text stop_tokenize ''   '' 500 2 = []
   \<and> chunk_text stop_tokenize ''   '' 500 2 \<noteq> [py_join '' '' (stop_tokenize ''   '')]"
  by code_simp

text \<open>
  C5 at \<open>overlap_sentences = 0\<close>. The reset keeps every sentence of the chunk just
  emitted, since \<open>xs[-0:]\<close> is the whole list: after emitting \<open>a b.\<close> the current chunk
  is \<open>a b.\<close>, \<open>c d.\<close> with a count of 4, and the three sentences come out as three
  growing chunks instead of three disjoint ones.
\<close>

theorem chunk_zero_overlap_keeps_all:
  "chunk_step 2 0 ''c d.'' ([], [''a b.''], 2) = ([''a b.''], [''a b.'', ''c d.''], 4)
   \<and> chunk_text stop_tokenize ''a b. c d. e f.'' 2 0 =
       [''a b.'', ''a b. c d.'', ''a b. c d. e f.'']"
  by code_simp

section \<open>The text collector\<close>

text \<open>
  C6 on a string inside an array. A 50-character string that is an array element is
  not collected, while the same string as the value of an object key is.
\<close>

theorem extract_texts_skips_array_strings:
  "extract_texts (JObj [(''paragraphs'', JArr [JStr (replicate 50 CHR ''A'')])]) = []
   \<and> extract_texts (JObj [(''body'', JStr (replicate 50 CHR ''A''))]) = [replicate 50 CHR ''A'']"
  by code_simp


section \<open>Provenance of the records\<close>

text \<open>What \<open>process_data\<close> appends, loop by loop.\<close>

lemma fold_append_chunk:
  "fold (append_chunk url n) ics vs =
     vs\<lparr>vs_texts := vs_texts vs @ map snd ics,
        vs_metadata := vs_metadata vs @ map (chunk_record url n) ics\<rparr>"
  by (induction ics arbitrary: vs) (simp_all add: append_chunk_def)

lemma process_text_eq:
  "process_text tok cs url raw vs =
     vs\<lparr>vs_texts := vs_texts vs @ chunk_text tok raw cs 2,
        vs_metadata := vs_metadata vs @ text_records tok cs url raw\<rparr>"
  by (simp add: process_text_def text_records_def fold_append_chunk Let_def)

lemma length_text_records:
  "length (text_records tok cs url raw) = length (chunk_text tok raw cs 2)"
  by (simp add: text_records_def Let_def)

lemma fold_process_text:
  "fold (process_text tok cs url) ts vs =
     vs\<lparr>vs_texts := vs_texts vs @ concat (map (\<lambda>t. chunk_text tok t cs 2) ts),
        vs_metadata := vs_metadata vs @ concat (map (text_records tok cs url) ts)\<rparr>"
  by (induction ts arbitrary: vs) (simp_all add: process_text_eq)

lemma process_doc_eq:
  "process_doc tok cs doc vs =
     vs\<lparr>vs_texts := vs_texts vs @ concat (map (\<lambda>t. chunk_text tok t cs 2) (extract_texts (JObj doc))),
        vs_metadata := vs_metadata vs @
          concat (map (text_records tok cs (doc_url doc)) (extract_texts (JObj doc)))\<rparr>"
  by (simp add: process_doc_def fold_process_text)





lemma process_doc_aligned:
  "length (vs_texts vs) = length (vs_metadata vs) \<Longrightarrow>
   length (vs_texts (process_doc tok cs doc vs)) = length (vs_metadata (process_doc tok cs doc vs))"
  by (simp add: process_doc_eq length_concat comp_def length_text_records)

lemma process_doc_index: "vs_index (process_doc tok cs doc vs) = vs_index vs"
  by (simp add: process_doc_eq)

lemma process_data_aligned:
  "length (vs_texts vs) = length (vs_metadata vs) \<Longrightarrow>
   length (vs_texts (process_data tok data cs vs)) = length (vs_metadata (process_data tok data cs vs))"
  unfolding process_data_def
  by (induction data arbitrary: vs) (simp_all add: process_doc_aligned)

lemma process_data_index: "vs_index (process_data tok data cs vs) = vs_index vs"
  unfolding process_data_def
  by (induction data arbitrary: vs) (simp_all add: process_doc_index)




section \<open>Alignment of the metadata with the index\<close>

lemma create_index_result:
  assumes "create_index encode normalise vs = Inr vs'"
  shows "vs_texts vs' = vs_texts vs \<and> vs_metadata vs' = vs_metadata vs
    \<and> (if vs_texts vs = [] then vs_index vs' = vs_index vs
        else map_option ntotal (vs_index vs') = Some (length (encode (vs_texts vs))))"
  using assms
  by (auto simp: create_index_def ntotal_def split: if_splits list.splits)

text \<open>
  C4, as amended. After a build on a fresh store (\<open>process_data\<close>, then a
  \<open>create_index\<close> that succeeds, the embedding model giving one vector per text) the
  metadata is as long as the texts; an index exists exactly when at least one chunk
  was produced, and its \<open>ntotal\<close> equals the length of the metadata; with no chunk
  there is no index and no metadata.
\<close>

theorem build_aligned:
  assumes "\<forall>ts. length (encode ts) = length ts"
    and "create_index encode normalise
           (process_data sent_tokenize data chunk_size new_vector_store) = Inr vs'"
  shows "length (vs_metadata vs') = length (vs_texts vs')
    \<and> (vs_texts vs' = [] \<longrightarrow> vs_index vs' = None \<and> vs_metadata vs' = [])
    \<and> (vs_texts vs' \<noteq> [] \<longrightarrow>
         (\<exists>ix. vs_index vs' = Some ix \<and> ntotal ix = length (vs_metadata vs')))
    \<and> (case vs_index vs' of
          None \<Rightarrow> vs_metadata vs' = []
        | Some ix \<Rightarrow> ntotal ix = length (vs_metadata vs'))"
proof -
  let ?vs = "process_data sent_tokenize data chunk_size (new_vector_store :: 'a vector_store)"
  have al: "length (vs_texts ?vs) = length (vs_metadata ?vs)"
    by (rule process_data_aligned) (simp add: new_vector_store_def)
  have ix: "vs_index ?vs = None"
    by (simp add: process_data_index new_vector_store_def)
  note r = create_index_result[OF assms(2)]
  show ?thesis
  proof (cases "vs_texts ?vs = []")
    case True
    with r al ix show ?thesis by simp
  next
    case False
    with r have "map_option ntotal (vs_index vs') = Some (length (vs_texts ?vs))"
      using assms(1) by simp
    with r al False show ?thesis by (auto split: option.splits)
  qed
qed

text \<open>
  Two builds. Two documents with a 50-character body each give two chunks, two
  records (\<open>text_length = 50\<close>, \<open>chunk_id = 0\<close>, \<open>total_chunks = 1\<close>) and an index of
  two rows. A document whose only text has 20 characters gives no chunk, no record
  and no index.
\<close>

theorem build_aligned_witness:
  "create_index (map (\<lambda>t. [length t])) (\<lambda>v. v)
       (process_data stop_tokenize
          [[(''url'', JStr ''https://x''), (''body'', JStr (replicate 50 CHR ''A''))],
           [(''body'', JStr (replicate 50 CHR ''B''))]] 500
          new_vector_store)
     = Inr \<lparr>vs_index = Some \<lparr>ix_d = 1, ix_rows = [[50], [50]]\<rparr>,
            vs_texts = [replicate 50 CHR ''A'', replicate 50 CHR ''B''],
            vs_metadata =
              [\<lparr>md_url = JStr ''https://x'', chunk_id = 0, total_chunks = 1,
                 text_length = 50, md_text = replicate 50 CHR ''A''\<rparr>,
               \<lparr>md_url = JStr ''Unknown URL'', chunk_id = 0, total_chunks = 1,
                 text_length = 50, md_text = replicate 50 CHR ''B''\<rparr>]\<rparr>
   \<and> ntotal \<lparr>ix_d = 1, ix_rows = [[50::nat], [50]]\<rparr> = 2
   \<and> create_index (map (\<lambda>t. [length t])) (\<lambda>v. v)
       (process_data stop_tokenize [[(''title'', JStr (replicate 20 CHR ''A''))]] 500
          new_vector_store)
     = Inr \<lparr>vs_index = None, vs_texts = [], vs_metadata = []\<rparr>"
proof -
  let ?A = "replicate 50 CHR ''A''"
  let ?B = "replicate 50 CHR ''B''"
  let ?enc = "map (\<lambda>t::string. [length t])"
  let ?d1 = "[(''url'', JStr ''https://x''), (''body'', JStr ?A)]"
  let ?d2 = "[(''body'', JStr ?B)]"
  let ?d3 = "[(''title'', JStr (replicate 20 CHR ''A''))]"
  let ?V = "\<lparr>vs_index = Some \<lparr>ix_d = 1, ix_rows = [[50::nat], [50]]\<rparr>,
            vs_texts = [?A, ?B],
            vs_metadata =
              [\<lparr>md_url = JStr ''https://x'', chunk_id = 0, total_chunks = 1,
                 text_length = 50, md_text = ?A\<rparr>,
               \<lparr>md_url = JStr ''Unknown URL'', chunk_id = 0, total_chunks = 1,
                 text_length = 50, md_text = ?B\<rparr>]\<rparr>"
  let ?E = "\<lparr>vs_index = None, vs_texts = [], vs_metadata = []\<rparr> :: nat vector_store"
  have ca: "chunk_text stop_tokenize ?A 500 2 = [?A]" by code_simp
  have cb: "chunk_text stop_tokenize ?B 500 2 = [?B]" by code_simp
  have t1: "extract_texts (JObj ?d1) = [?A]" by code_simp
  have t2: "extract_texts (JObj ?d2) = [?B]" by code_simp
  have t3: "extract_texts (JObj ?d3) = []" by code_simp
  have p: "process_data stop_tokenize [?d1, ?d2] 500 (new_vector_store :: nat vector_store)
           = \<lparr>vs_index = None, vs_texts = [?A, ?B],
              vs_metadata =
                [\<lparr>md_url = JStr ''https://x'', chunk_id = 0, total_chunks = 1,
                   text_length = 50, md_text = ?A\<rparr>,
                 \<lparr>md_url = JStr ''Unknown URL'', chunk_id = 0, total_chunks = 1,
                   text_length = 50, md_text = ?B\<rparr>]\<rparr>"
    unfolding process_data_def process_doc_def fold_simps t1 t2
    by (simp add: process_text_def ca cb append_chunk_def chunk_record_def doc_url_def
        new_vector_store_def enumerate_eq_zip)
  have q: "process_data stop_tokenize [?d3] 500 (new_vector_store :: nat vector_store) = ?E"
    unfolding process_data_def process_doc_def fold_simps t3
    by (simp add: new_vector_store_def)
  have h1: "\<forall>ts. length (?enc ts) = length ts" by simp
  have h2: "create_index ?enc (\<lambda>v. v) (process_data stop_tokenize [?d1, ?d2] 500 new_vector_store)
      = Inr ?V"
    unfolding p by (simp add: create_index_def)
  have h3: "create_index ?enc (\<lambda>v. v) (process_data stop_tokenize [?d3] 500 new_vector_store)
      = Inr ?E"
    unfolding q by (simp add: create_index_def)
  from build_aligned[OF h1 h2] have n: "ntotal \<lparr>ix_d = 1, ix_rows = [[50::nat], [50]]\<rparr> = 2"
    by simp
  from build_aligned[OF h1 h3] have "vs_index ?E = None \<and> vs_metadata ?E = []"
    by simp
  with h2 h3 n show ?thesis by simp
qed

text \<open>
  C4 as stated fails in both phases. Loading an index file of 3 rows beside a
  metadata file of 2 records succeeds and leaves \<open>ntotal = 3\<close> against 2 records; and
  \<open>process_data\<close> on a store that already holds an index of 1 row leaves that index
  beside 2 records.
\<close>

theorem alignment_counterexample:
  "(case load_index plain_codec ''faiss_index'' ''metadata.pkl''
           [''faiss_index'' \<mapsto> Inl \<lparr>ix_d = 1, ix_rows = [[1::nat], [2], [3]]\<rparr>,
            ''metadata.pkl'' \<mapsto> Inr [sample_record 0, sample_record 1]]
           new_query_engine of
      (ok, qe) \<Rightarrow> ok \<and> map_option ntotal (qe_index qe) = Some 3 \<and> length (qe_metadata qe) = 2)
   \<and> map_option ntotal (vs_index (process_data stop_tokenize
          [[(''body'', JStr (replicate 50 CHR ''A''))]] 500
          \<lparr>vs_index = Some \<lparr>ix_d = 1, ix_rows = [[1::nat]]\<rparr>, vs_texts = [''chunk''],
            vs_metadata = [sample_record 0]\<rparr>)) = Some 1
   \<and> length (vs_metadata (process_data stop_tokenize
          [[(''body'', JStr (replicate 50 CHR ''A''))]] 500
          \<lparr>vs_index = Some \<lparr>ix_d = 1, ix_rows = [[1::nat]]\<rparr>, vs_texts = [''chunk''],
            vs_metadata = [sample_record 0]\<rparr>)) = 2"
proof -
  let ?A = "replicate 50 CHR ''A''"
  have c: "chunk_text stop_tokenize ?A 500 2 = [?A]" by code_simp
  have t: "extract_texts (JObj [(''body'', JStr ?A)]) = [?A]" by code_simp
  have l: "load_index plain_codec ''faiss_index'' ''metadata.pkl''
           [''faiss_index'' \<mapsto> Inl \<lparr>ix_d = 1, ix_rows = [[1::nat], [2], [3]]\<rparr>,
            ''metadata.pkl'' \<mapsto> Inr [sample_record 0, sample_record 1]]
           new_query_engine
     = (True, \<lparr>qe_index = Some \<lparr>ix_d = 1, ix_rows = [[1::nat], [2], [3]]\<rparr>,
               qe_metadata = [sample_record 0, sample_record 1]\<rparr>)"
    by (simp add: load_index_def plain_codec_def new_query_engine_def)
  have n: "length (vs_metadata (process_data stop_tokenize [[(''body'', JStr ?A)]] 500
          \<lparr>vs_index = Some \<lparr>ix_d = 1, ix_rows = [[1::nat]]\<rparr>, vs_texts = [''chunk''],
            vs_metadata = [sample_record 0]\<rparr>)) = 2"
    by (simp add: process_data_def process_doc_eq t c length_text_records
        del: extract_texts.simps)
  show ?thesis
    unfolding l n by (simp add: ntotal_def process_data_index)
qed

section \<open>Loading a persisted pair\<close>

text \<open>
  C3, as amended. \<open>load_index\<close> compares no counts: whenever both files can be read
  it returns \<open>True\<close> and holds exactly the index and the metadata read, whatever their
  sizes; and it returns \<open>True\<close> only when both files could be read.
\<close>

theorem load_index_no_count_check:
  "(files index_path = Some bi \<and> read_index cd bi = Some ix \<and>
    files metadata_path = Some bm \<and> pickle_load cd bm = Some md
      \<longrightarrow> load_index cd index_path metadata_path files qe =
            (True, qe\<lparr>qe_index := Some ix, qe_metadata := md\<rparr>))
   \<and> (fst (load_index cd index_path metadata_path files qe)
      \<longrightarrow> (\<exists>bi ix bm md. files index_path = Some bi \<and> read_index cd bi = Some ix \<and>
            files metadata_path = Some bm \<and> pickle_load cd bm = Some md))"
  by (auto simp: load_index_def Let_def split: option.splits Option.bind_splits)

text \<open>An index of 2 rows beside 1 record loads, and the result is \<open>True\<close>.\<close>

theorem load_index_no_count_check_witness:
  "load_index plain_codec ''faiss_index'' ''metadata.pkl''
       [''faiss_index'' \<mapsto> Inl \<lparr>ix_d = 1, ix_rows = [[1::nat], [2]]\<rparr>,
        ''metadata.pkl'' \<mapsto> Inr [sample_record 0]]
       new_query_engine
     = (True, \<lparr>qe_index = Some \<lparr>ix_d = 1, ix_rows = [[1::nat], [2]]\<rparr>,
               qe_metadata = [sample_record 0]\<rparr>)"
  using load_index_no_count_check[of
      "[''faiss_index'' \<mapsto> Inl \<lparr>ix_d = 1, ix_rows = [[1::nat], [2]]\<rparr>,
        ''metadata.pkl'' \<mapsto> Inr [sample_record 0]]"
      "''faiss_index''" "Inl \<lparr>ix_d = 1, ix_rows = [[1::nat], [2]]\<rparr>" plain_codec
      "\<lparr>ix_d = 1, ix_rows = [[1::nat], [2]]\<rparr>" "''metadata.pkl''"
      "Inr [sample_record 0]" "[sample_record 0]" new_query_engine]
  by (simp add: plain_codec_def new_query_engine_def)

text \<open>
  C3 as stated fails on an index of 3 rows persisted beside 2 records: the load does
  not fail, and a query over the loaded pair is answered (the row with id 2, which has
  no record, is left out of the answer).
\<close>

theorem load_index_mismatch_counterexample:
  "ntotal \<lparr>ix_d = 1, ix_rows = [[1::nat], [2], [3]]\<rparr> \<noteq> length [sample_record 0, sample_record 1]
   \<and> fst (load_index plain_codec ''faiss_index'' ''metadata.pkl''
           [''faiss_index'' \<mapsto> Inl \<lparr>ix_d = 1, ix_rows = [[1::nat], [2], [3]]\<rparr>,
            ''metadata.pkl'' \<mapsto> Inr [sample_record 0, sample_record 1]]
           new_query_engine)
   \<and> search_rows
        (qe_metadata (snd (load_index plain_codec ''faiss_index'' ''metadata.pkl''
           [''faiss_index'' \<mapsto> Inl \<lparr>ix_d = 1, ix_rows = [[1::nat], [2], [3]]\<rparr>,
            ''metadata.pkl'' \<mapsto> Inr [sample_record 0, sample_record 1]]
           new_query_engine)))
        [(0.9, 1), (0.5, 2), (0.1, 0)]
      = Inr [\<lparr>rank = 1, score = 0.9, res_metadata = sample_record 1, res_text = ''chunk''\<rparr>,
             \<lparr>rank = 3, score = 0.1, res_metadata = sample_record 0, res_text = ''chunk''\<rparr>]"
  by (simp add: load_index_def plain_codec_def new_query_engine_def ntotal_def
      search_rows_def py_index_def sample_record_def)

section \<open>Persistence round trip\<close>

text \<open>
  C7. For a store that holds an index, \<open>save_index\<close> followed by \<open>load_index\<close> on the
  same two paths returns \<open>True\<close> and gives back the index as it was (dimension, rows and
  row count) and the metadata sequence as it was. The two artifacts are separate files,
  and the serialisation libraries are assumed to read back what they wrote.
\<close>

theorem save_load_roundtrip:
  assumes "vs_index vs = Some ix"
    and "index_path \<noteq> metadata_path"
    and "read_index cd (write_index cd ix) = Some ix"
    and "pickle_load cd (pickle_dump cd (vs_metadata vs)) = Some (vs_metadata vs)"
  shows "load_index cd index_path metadata_path
           (save_index cd index_path metadata_path vs files) qe
         = (True, qe\<lparr>qe_index := Some ix, qe_metadata := vs_metadata vs\<rparr>)"
  using assms by (simp add: load_index_def save_index_def)

text \<open>The round trip at the default paths, for an index of 2 rows of dimension 2.\<close>

theorem save_load_roundtrip_witness:
  "load_index plain_codec ''faiss_index'' ''metadata.pkl''
     (save_index plain_codec ''faiss_index'' ''metadata.pkl''
        \<lparr>vs_index = Some \<lparr>ix_d = 2, ix_rows = [[3::nat, 4], [5, 6]]\<rparr>,
          vs_texts = [''chunk'', ''chunk''],
          vs_metadata = [sample_record 0, sample_record 1]\<rparr> Map.empty)
     new_query_engine
   = (True, \<lparr>qe_index = Some \<lparr>ix_d = 2, ix_rows = [[3::nat, 4], [5, 6]]\<rparr>,
             qe_metadata = [sample_record 0, sample_record 1]\<rparr>)"
  using save_load_roundtrip[of
      "\<lparr>vs_index = Some \<lparr>ix_d = 2, ix_rows = [[3::nat, 4], [5, 6]]\<rparr>,
          vs_texts = [''chunk'', ''chunk''],
          vs_metadata = [sample_record 0, sample_record 1]\<rparr>"
      "\<lparr>ix_d = 2, ix_rows = [[3::nat, 4], [5, 6]]\<rparr>"
      "''faiss_index''" "''metadata.pkl''" plain_codec Map.empty new_query_engine]
  by (simp add: plain_codec_def new_query_engine_def)


section \<open>Search\<close>

lemma search_loop_nonneg:
  "\<forall>(sc, idx) \<in> set found. 0 \<le> idx \<Longrightarrow>
   search_loop md i found results =
     Inr (results @
       map (\<lambda>(p, sc, idx).
              \<lparr>rank = p + 1, score = sc, res_metadata = md ! nat idx,
               res_text = md_text (md ! nat idx)\<rparr>)
         (filter (\<lambda>(p, sc, idx). idx < int (length md)) (enumerate i found)))"
proof (induction found arbitrary: i results)
  case Nil
  show ?case by simp
next
  case (Cons row found)
  obtain sc idx where row: "row = (sc, idx)" by (cases row)
  from Cons.prems row have nn: "0 \<le> idx" and rest: "\<forall>(sc, idx) \<in> set found. 0 \<le> idx"
    by simp_all
  show ?case
  proof (cases "idx < int (length md)")
    case True
    with nn have "py_index md idx = Inr (md ! nat idx)"
      by (simp add: py_index_def)
    with True row Cons.IH[OF rest] show ?thesis by simp
  next
    case False
    with row Cons.IH[OF rest] show ?thesis by simp
  qed
qed

text \<open>
  C1, as amended. With an index loaded and an answer of the index whose row ids are
  not negative, \<open>search\<close> raises nothing: it returns, in order, one result for every
  row whose id is below the number of metadata records, ranked by the row's position
  in the answer (counted from 1), and it leaves out every row whose id is not.
\<close>

theorem search_skips_rows_past_metadata:
  assumes "qe_index qe = Some ix"
    and "index_search ix (normalise (encode query)) top_k = found"
    and "\<forall>(sc, idx) \<in> set found. 0 \<le> idx"
  shows "search encode normalise index_search qe query top_k =
     Inr (map (\<lambda>(p, sc, idx).
                 \<lparr>rank = p + 1, score = sc, res_metadata = qe_metadata qe ! nat idx,
                  res_text = md_text (qe_metadata qe ! nat idx)\<rparr>)
            (filter (\<lambda>(p, sc, idx). idx < int (length (qe_metadata qe)))
               (enumerate 0 found)))"
  using assms(1,2) search_loop_nonneg[OF assms(3), of "qe_metadata qe" 0 "[]"]
  by (simp add: search_def search_rows_def)

text \<open>
  Two records and an answer naming rows 0, 7 and 1: row 7 is left out, and the
  results keep the ranks 1 and 3.
\<close>

theorem search_skips_rows_past_metadata_witness:
  "search (\<lambda>q. [1::nat]) (\<lambda>v. v) (\<lambda>ix v k. [(0.9, 0), (0.5, 7), (0.25, 1)])
     \<lparr>qe_index = Some \<lparr>ix_d = 1, ix_rows = replicate 8 [1]\<rparr>,
       qe_metadata = [sample_record 0, sample_record 1]\<rparr> ''what is it'' 3
   = Inr [\<lparr>rank = 1, score = 0.9, res_metadata = sample_record 0, res_text = ''chunk''\<rparr>,
          \<lparr>rank = 3, score = 0.25, res_metadata = sample_record 1, res_text = ''chunk''\<rparr>]"
  using search_skips_rows_past_metadata[where
      qe = "\<lparr>qe_index = Some \<lparr>ix_d = 1, ix_rows = replicate 8 [1::nat]\<rparr>,
             qe_metadata = [sample_record 0, sample_record 1]\<rparr>"
      and ix = "\<lparr>ix_d = 1, ix_rows = replicate 8 [1::nat]\<rparr>"
      and index_search = "\<lambda>ix v k. [(0.9, 0), (0.5, 7), (0.25, 1)]"
      and normalise = "\<lambda>v. v" and encode = "\<lambda>q. [1::nat]"
      and query = "''what is it''" and top_k = 3
      and found = "[(0.9, 0), (0.5, 7), (0.25, 1)]"]
  by (simp add: enumerate_eq_zip sample_record_def upt_rec)

text \<open>
  C1 as stated fails where the index answers with row 7 and there are 2 records: no
  error is raised and the row is missing from the results.
\<close>

theorem search_drops_row_counterexample:
  "search_rows [sample_record 0, sample_record 1] [(0.9, 0), (0.5, 7)]
   = Inr [\<lparr>rank = 1, score = 0.9, res_metadata = sample_record 0, res_text = ''chunk''\<rparr>]"
  by (simp add: search_rows_def py_index_def sample_record_def)

text \<open>
  C2 on an index of 5 rows asked for 10 neighbours. The index answers with 10 rows,
  the last 5 being padding with row id \<open>-1\<close> and the lowest score; \<open>-1\<close> passes the
  guard and Python indexing resolves it to the last record, so 10 results come back,
  the last 5 all carrying the record of chunk 4.
\<close>

theorem search_keeps_padding_rows:
  "map_sum id (map (\<lambda>r. (rank r, chunk_id (res_metadata r))))
     (search_rows (map sample_record [0, 1, 2, 3, 4])
        [(0.9, 0), (0.8, 1), (0.7, 2), (0.6, 3), (0.5, 4),
         (- 340282346638528859811704183484516925440, - 1),
         (- 340282346638528859811704183484516925440, - 1),
         (- 340282346638528859811704183484516925440, - 1),
         (- 340282346638528859811704183484516925440, - 1),
         (- 340282346638528859811704183484516925440, - 1)])
   = Inr [(1, 0), (2, 1), (3, 2), (4, 3), (5, 4), (6, 4), (7, 4), (8, 4), (9, 4), (10, 4)]"
  by (simp add: search_rows_def py_index_def sample_record_def)

text \<open>
  The same guard with no records at all: a padding row still passes it, and indexing
  the empty metadata list raises \<open>IndexError\<close>.
\<close>

lemma search_rows_padding_no_records:
  "search_rows [] [(- 340282346638528859811704183484516925440, - 1)] = Inl IndexError"
  by (simp add: search_rows_def py_index_def)

text \<open>
  C9 on the same answer. The scores of the padding rows are passed on as they are: the
  last 5 results carry the lowest single-precision value, far below \<open>-1\<close>, and it is
  the inner product of the query with no stored row.
\<close>

theorem search_passes_padding_scores:
  "map_sum id (map score)
     (search_rows (map sample_record [0, 1, 2, 3, 4])
        [(0.9, 0), (0.8, 1), (0.7, 2), (0.6, 3), (0.5, 4),
         (- 340282346638528859811704183484516925440, - 1),
         (- 340282346638528859811704183484516925440, - 1),
         (- 340282346638528859811704183484516925440, - 1),
         (- 340282346638528859811704183484516925440, - 1),
         (- 340282346638528859811704183484516925440, - 1)])
   = Inr [0.9, 0.8, 0.7, 0.6, 0.5,
          - 340282346638528859811704183484516925440,
          - 340282346638528859811704183484516925440,
          - 340282346638528859811704183484516925440,
          - 340282346638528859811704183484516925440,
          - 340282346638528859811704183484516925440]
   \<and> (- 340282346638528859811704183484516925440 :: real) < - 1"
  by (simp add: search_rows_def py_index_def sample_record_def)

end
